theory Spec2Isabelle
  imports Main "HOL-Library.Word"
begin

unbundle bit_operations_syntax

section \<open>Machine types\<close>

type_synonym u8 = "8 word"
type_synonym u16 = "16 word"
type_synonym u32 = "32 word"
type_synonym u64 = "64 word"
type_synonym offs_t = "32 word"

section \<open>APF cartridge slot (src/devices/bus/apf/slot.cpp)\<close>

subsection \<open>PCB ids and image errors\<close>

text \<open>
  Modelled from the spec: the anonymous PCB enum of slot.h (not under src/). The ids are
  plain ints (\<open>apf_slot::pcb_id\<close> is an \<open>int\<close>), numbered in the order of
  \<open>slot_list\<close>; the default variant \<open>APF_STD\<close> is id 0, the value
  \<open>apf_get_pcb_id\<close> falls back to.
\<close>

definition APF_STD :: int where
  "APF_STD = 0"

definition APF_BASIC :: int where
  "APF_BASIC = 1"

definition APF_SPACEDST :: int where
  "APF_SPACEDST = 2"

text \<open>
  The \<open>image_error\<close> codes that the sources under src/ return. A
  \<open>std::error_condition\<close> is an \<open>image_error option\<close>: the default-constructed
  (empty) condition is \<open>None\<close>.
\<close>

datatype image_error = INTERNAL | UNSUPPORTED | INVALIDIMAGE | INVALIDLENGTH | UNSPECIFIED

type_synonym error_condition = "image_error option"

subsection \<open>The cartridge interface\<close>

text \<open>
  \<open>m_rom\<close> is a pointer to the base of a memory region: \<open>None\<close> is \<open>nullptr\<close>,
  \<open>Some bs\<close> a region holding the bytes \<open>bs\<close>. \<open>m_ram\<close> is a
  \<open>std::vector\<close> of bytes.
\<close>

record device_apf_cart_interface =
  m_rom :: "u8 list option"
  m_rom_size :: u32
  m_ram :: "u8 list"

text \<open>The constructor: \<open>m_rom(nullptr), m_rom_size(0)\<close>, and an empty vector.\<close>

definition cart_interface_init :: device_apf_cart_interface where
  "cart_interface_init = \<lparr>m_rom = None, m_rom_size = 0, m_ram = []\<rparr>"

text \<open>
  Modelled from the spec: the memory manager's \<open>region_alloc\<close> (not under src/);
  "allocates ROM sized exactly to the image". The fresh region has exactly the requested
  number of bytes; they are zero here, and \<open>call_load\<close> overwrites every one of them.
\<close>

definition region_alloc :: "u32 \<Rightarrow> u8 list" where
  "region_alloc sz = replicate (unat sz) 0"

definition rom_alloc :: "u32 \<Rightarrow> device_apf_cart_interface \<Rightarrow> device_apf_cart_interface" where
  "rom_alloc sz c =
     (if m_rom c = None
      then c\<lparr>m_rom := Some (region_alloc sz), m_rom_size := sz\<rparr>
      else c)"

text \<open>\<open>std::vector::resize\<close>: keeps the first \<open>n\<close> elements, pads with zero bytes.\<close>

definition resize :: "nat \<Rightarrow> u8 list \<Rightarrow> u8 list" where
  "resize n v = take n v @ replicate (n - length v) 0"

definition ram_alloc :: "u32 \<Rightarrow> device_apf_cart_interface \<Rightarrow> device_apf_cart_interface" where
  "ram_alloc sz c = c\<lparr>m_ram := resize (unat sz) (m_ram c)\<rparr>"

definition get_rom_base :: "device_apf_cart_interface \<Rightarrow> u8 list option" where
  "get_rom_base c = m_rom c"

text \<open>
  Modelled from the spec: the card's virtual \<open>read_rom\<close>, \<open>extra_rom\<close>,
  \<open>read_ram\<close> and \<open>write_ram\<close> (declared in slot.h, overridden in rom.cpp; neither
  is under src/). The spec gives one read and one write on a Card: "Reads/writes on an
  unpopulated Card return a sentinel (all-bits-set, i.e. 0xFF) rather than failing", an
  out-of-range offset is the same open-bus condition, and a loaded image reads back "exactly
  the bytes written". \<open>card_read\<close> is that read over one backing store.
\<close>

definition card_read :: "u8 list option \<Rightarrow> offs_t \<Rightarrow> u8" where
  "card_read store offset =
     (case store of
        None \<Rightarrow> 0xff
      | Some bs \<Rightarrow> (if unat offset < length bs then bs ! unat offset else 0xff))"

definition cart_read_rom :: "device_apf_cart_interface \<Rightarrow> offs_t \<Rightarrow> u8" where
  "cart_read_rom c offset = card_read (m_rom c) offset"

definition cart_extra_rom :: "device_apf_cart_interface \<Rightarrow> offs_t \<Rightarrow> u8" where
  "cart_extra_rom c offset = card_read (m_rom c) offset"

definition cart_read_ram :: "device_apf_cart_interface \<Rightarrow> offs_t \<Rightarrow> u8" where
  "cart_read_ram c offset = card_read (Some (m_ram c)) offset"

definition cart_write_ram ::
  "device_apf_cart_interface \<Rightarrow> offs_t \<Rightarrow> u8 \<Rightarrow> device_apf_cart_interface" where
  "cart_write_ram c offset data =
     (if unat offset < length (m_ram c)
      then c\<lparr>m_ram := (m_ram c)[unat offset := data]\<rparr>
      else c)"

subsection \<open>The slot device\<close>

text \<open>
  \<open>m_cart\<close> is the pointer to the inserted card device: \<open>None\<close> is \<open>nullptr\<close>,
  \<open>Some c\<close> a card in state \<open>c\<close>. The slot is the only holder of the card here.
\<close>

record apf_cart_slot_device =
  m_type :: int
  m_cart :: "device_apf_cart_interface option"

text \<open>The constructor: \<open>m_type(APF_STD), m_cart(nullptr)\<close>.\<close>

definition apf_cart_slot_init :: apf_cart_slot_device where
  "apf_cart_slot_init = \<lparr>m_type = APF_STD, m_cart = None\<rparr>"

text \<open>\<open>device_start\<close>: \<open>m_cart = get_card_device()\<close>; the card device is the argument.\<close>

definition apf_device_start ::
  "device_apf_cart_interface option \<Rightarrow> apf_cart_slot_device \<Rightarrow> apf_cart_slot_device" where
  "apf_device_start card_device s = s\<lparr>m_cart := card_device\<rparr>"

subsection \<open>The PCB table\<close>

definition slot_list :: "(int \<times> string) list" where
  "slot_list = [(APF_STD, ''std''), (APF_BASIC, ''basic''), (APF_SPACEDST, ''spacedst'')]"

text \<open>
  The two range-for loops over \<open>slot_list\<close>, as recursion over the table. \<open>strcmp\<close> on
  NUL-terminated strings is equality of the strings.
\<close>

fun get_pcb_id_loop :: "(int \<times> string) list \<Rightarrow> string \<Rightarrow> int" where
  "get_pcb_id_loop [] slot = 0"
| "get_pcb_id_loop ((pcb_id, slot_option) # elems) slot =
     (if slot_option = slot then pcb_id else get_pcb_id_loop elems slot)"

definition apf_get_pcb_id :: "string \<Rightarrow> int" where
  "apf_get_pcb_id slot = get_pcb_id_loop slot_list slot"

fun get_slot_loop :: "(int \<times> string) list \<Rightarrow> int \<Rightarrow> string" where
  "get_slot_loop [] type = ''std''"
| "get_slot_loop ((pcb_id, slot_option) # elems) type =
     (if pcb_id = type then slot_option else get_slot_loop elems type)"

definition apf_get_slot :: "int \<Rightarrow> string" where
  "apf_get_slot type = get_slot_loop slot_list type"

subsection \<open>The image being loaded\<close>

text \<open>
  Modelled from the spec: the accessors of the image device that \<open>call_load\<close> calls
  (\<open>device_image_interface\<close>, not under src/); "a raw byte stream of the cartridge/disk
  image plus optional sidecar metadata (variant/feature name, region sizes)". As data:
  whether the image comes from a software list, the bytes of the image file (\<open>length()\<close>
  is their number, \<open>fread\<close> reads them from the start), the software-list regions by tag
  (\<open>get_software_region\<close> is null for an absent tag, and its length 0) and the features
  by name (\<open>get_feature\<close> is null for an absent name).
\<close>

record image =
  loaded_through_softlist :: bool
  file_bytes :: "u8 list"
  software_regions :: "string \<rightharpoonup> u8 list"
  features :: "string \<rightharpoonup> string"

definition image_length :: "image \<Rightarrow> u64" where
  "image_length img = of_nat (length (file_bytes img))"

definition get_software_region :: "image \<Rightarrow> string \<Rightarrow> u8 list option" where
  "get_software_region img tag = software_regions img tag"

definition get_software_region_length :: "image \<Rightarrow> string \<Rightarrow> u32" where
  "get_software_region_length img tag =
     (case software_regions img tag of None \<Rightarrow> 0 | Some bs \<Rightarrow> of_nat (length bs))"

definition get_feature :: "image \<Rightarrow> string \<Rightarrow> string option" where
  "get_feature img name = features img name"

text \<open>\<open>fread(buffer, size)\<close> at the start of the file: the bytes it delivers.\<close>

definition fread :: "image \<Rightarrow> u32 \<Rightarrow> u8 list" where
  "fread img sz = take (unat sz) (file_bytes img)"

text \<open>\<open>memcpy(dst, get_software_region(tag), size)\<close>: the bytes it copies.\<close>

definition region_bytes :: "image \<Rightarrow> string \<Rightarrow> u32 \<Rightarrow> u8 list" where
  "region_bytes img tag sz =
     (case software_regions img tag of None \<Rightarrow> [] | Some bs \<Rightarrow> take (unat sz) bs)"

text \<open>
  Writing \<open>bs\<close> at the base of the ROM region. Through a null base, or beyond the end of
  the region, the C++ has no defined behaviour: that is \<open>None\<close>.
\<close>

definition write_rom_base ::
  "u8 list \<Rightarrow> device_apf_cart_interface \<Rightarrow> device_apf_cart_interface option" where
  "write_rom_base bs c =
     (case get_rom_base c of
        None \<Rightarrow> None
      | Some region \<Rightarrow>
          (if length bs \<le> length region
           then Some (c\<lparr>m_rom := Some (bs @ drop (length bs) region)\<rparr>)
           else None))"

subsection \<open>call_load\<close>

text \<open>
  \<open>load_size\<close> is the initialiser of the local \<open>uint32_t size\<close>: the 64-bit file
  length cut to 32 bits, or the length of the software-list region "rom".
  The result of \<open>call_load\<close> is the returned error condition and the slot after the
  call; \<open>None\<close> when the copy into the ROM region is undefined (see
  \<open>write_rom_base\<close>).
\<close>

definition load_size :: "image \<Rightarrow> u32" where
  "load_size img =
     (if \<not> loaded_through_softlist img
      then ucast (image_length img)
      else get_software_region_length img ''rom'')"

definition call_load ::
  "image \<Rightarrow> apf_cart_slot_device \<Rightarrow> (error_condition \<times> apf_cart_slot_device) option" where
  "call_load img s =
     (case m_cart s of
        None \<Rightarrow> Some (None, s)
      | Some c \<Rightarrow>
          (let sz = load_size img
           in if sz > 0x3800 then Some (Some INVALIDLENGTH, s)
              else
                (let c1 = rom_alloc sz c;
                     bs = (if \<not> loaded_through_softlist img
                           then fread img sz
                           else region_bytes img ''rom'' sz)
                 in case write_rom_base bs c1 of
                      None \<Rightarrow> None
                    | Some c2 \<Rightarrow>
                        (if \<not> loaded_through_softlist img
                         then
                           (let t0 = APF_STD;
                                t1 = (if sz = 0x1800 then APF_SPACEDST else t0);
                                c3 = (if sz = 0x1800 then ram_alloc 0x400 c2 else c2);
                                t2 = (if sz > 0x2000 then APF_BASIC else t1)
                            in Some (None, s\<lparr>m_type := t2, m_cart := Some c3\<rparr>))
                         else
                           (let t1 = (case get_feature img ''slot'' of
                                        Some pcb_name \<Rightarrow> apf_get_pcb_id pcb_name
                                      | None \<Rightarrow> m_type s);
                                c3 = (case get_software_region img ''ram'' of
                                        Some r \<Rightarrow>
                                          ram_alloc (get_software_region_length img ''ram'') c2
                                      | None \<Rightarrow> c2)
                            in Some (None, s\<lparr>m_type := t1, m_cart := Some c3\<rparr>))))))"

subsection \<open>get_default_card_software\<close>

text \<open>
  The hook's \<open>image_file()\<close> is null or a file; \<open>software_get_default_slot\<close> (outside
  src/) is the parameter \<open>sw_default\<close>.
\<close>

record get_default_card_software_hook =
  image_file :: "u8 list option"

definition get_default_card_software ::
  "(string \<Rightarrow> string) \<Rightarrow> get_default_card_software_hook \<Rightarrow> string" where
  "get_default_card_software sw_default hook =
     (case image_file hook of
        Some f \<Rightarrow>
          (let sz = (of_nat (length f) :: u64);
               t0 = APF_STD;
               t1 = (if sz = 0x1800 then APF_SPACEDST else t0);
               t2 = (if sz > 0x2000 then APF_BASIC else t1)
           in apf_get_slot t2)
      | None \<Rightarrow> sw_default ''std'')"

subsection \<open>Slot reads and writes\<close>

definition read_rom :: "offs_t \<Rightarrow> apf_cart_slot_device \<Rightarrow> u8" where
  "read_rom offset s =
     (case m_cart s of Some c \<Rightarrow> cart_read_rom c offset | None \<Rightarrow> 0xff)"

definition extra_rom :: "offs_t \<Rightarrow> apf_cart_slot_device \<Rightarrow> u8" where
  "extra_rom offset s =
     (case m_cart s of Some c \<Rightarrow> cart_extra_rom c offset | None \<Rightarrow> 0xff)"

definition read_ram :: "offs_t \<Rightarrow> apf_cart_slot_device \<Rightarrow> u8" where
  "read_ram offset s =
     (case m_cart s of Some c \<Rightarrow> cart_read_ram c offset | None \<Rightarrow> 0xff)"

definition write_ram :: "offs_t \<Rightarrow> u8 \<Rightarrow> apf_cart_slot_device \<Rightarrow> apf_cart_slot_device" where
  "write_ram offset data s =
     (case m_cart s of
        Some c \<Rightarrow> s\<lparr>m_cart := Some (cart_write_ram c offset data)\<rparr>
      | None \<Rightarrow> s)"

section \<open>VME bus (vme.cpp, src/unnamed/part_000)\<close>

subsection \<open>Outcomes of a call\<close>

text \<open>
  Modelled from the spec: \<open>enum vme_amod_t\<close> of vme.h (not under src/); "modifier
  \<in> {A16, A24, A32, \<dots>}", of which A16_SC, A24_SC and A32_SC are the supported
  single-cycle modifiers. These three are the enumerators that the switch in
  \<open>install_device\<close> names; \<open>AMOD_other k\<close> stands for any other enumerator (\<open>k\<close>
  tells them apart).
\<close>

datatype vme_amod_t = A16_SC | A24_SC | A32_SC | AMOD_other nat

text \<open>
  \<open>fatalerror(format, argument)\<close> throws \<open>emu_fatalerror\<close>: the format string (without
  its final newline) and the argument are kept. A call returns, stops with a fatal error, or
  goes through a null pointer, which C++ leaves undefined.
\<close>

datatype format_arg = Arg_amod vme_amod_t | Arg_int int

datatype emu_fatalerror = Fatalerror string format_arg

datatype outcome = Returned | Fatal emu_fatalerror | Null_dereference

subsection \<open>The VME slot and the card interface\<close>

record device_vme_card_interface =
  m_vme :: bool
  m_slot :: int

record vme_slot_device =
  m_slot_nbr :: int
  card_device :: "device_vme_card_interface option"

text \<open>
  \<open>vme_slot_device::read8\<close>: \<open>uint16_t result = 0x00\<close>, returned as \<open>uint8_t\<close>; the
  forwarding to the card is commented out in the source.
\<close>

definition vme_slot_read8 :: "offs_t \<Rightarrow> vme_slot_device \<Rightarrow> u8" where
  "vme_slot_read8 offset s = (let result = (0x00 :: u16) in ucast result)"

definition vme_slot_write8 :: "offs_t \<Rightarrow> u8 \<Rightarrow> vme_slot_device \<Rightarrow> vme_slot_device" where
  "vme_slot_write8 offset data s = s"

text \<open>
  \<open>device_resolve_objects\<close>: \<open>set_vme_bus\<close> (declared in vme.h) gives the card its bus
  and slot number.
\<close>

definition device_resolve_objects :: "vme_slot_device \<Rightarrow> vme_slot_device" where
  "device_resolve_objects s =
     (case card_device s of
        Some dev \<Rightarrow> s\<lparr>card_device := Some (dev\<lparr>m_vme := True, m_slot := m_slot_nbr s\<rparr>)\<rparr>
      | None \<Rightarrow> s)"

definition vme_card_read8 :: "offs_t \<Rightarrow> device_vme_card_interface \<Rightarrow> u8" where
  "vme_card_read8 offset c = (let result = (0x00 :: u8) in result)"

definition vme_card_write8 ::
  "offs_t \<Rightarrow> u8 \<Rightarrow> device_vme_card_interface \<Rightarrow> device_vme_card_interface" where
  "vme_card_write8 offset data c = c"

subsection \<open>Address spaces\<close>

text \<open>
  The five overloads of \<open>install_device\<close> differ in the delegate types of their handler
  pair: \<open>read8_delegate\<close>, \<open>read8sm_delegate\<close>, \<open>read8smo_delegate\<close>,
  \<open>read16_delegate\<close>, \<open>read32_delegate\<close> (and the write delegates). A handler pair
  carries that tag; \<open>'h\<close> is the type of a delegate.
\<close>

datatype 'h handler_pair =
    D8 'h 'h
  | D8SM 'h 'h
  | D8SMO 'h 'h
  | D16 'h 'h
  | D32 'h 'h

record 'h handler_entry =
  addrstart :: offs_t
  addrend :: offs_t
  handlers :: "'h handler_pair"
  unitmask :: u64

record 'h address_space =
  data_width :: int
  installed :: "'h handler_entry list"

text \<open>
  Modelled from the spec: \<open>address_space::install_readwrite_handler\<close> (the memory
  system is not under src/); "install the handler pair into the authoritative address
  space". The space records the pair with its range and unit mask (64 bits wide), the
  latest last.
\<close>

definition install_readwrite_handler ::
  "offs_t \<Rightarrow> offs_t \<Rightarrow> 'h handler_pair \<Rightarrow> u64 \<Rightarrow> 'h address_space \<Rightarrow> 'h address_space" where
  "install_readwrite_handler start aend hp um sp =
     sp\<lparr>installed := installed sp @
        [\<lparr>addrstart = start, addrend = aend, handlers = hp, unitmask = um\<rparr>]\<rparr>"

subsection \<open>The bus device\<close>

text \<open>
  \<open>m_prgspace\<close> points to the bus's own program space or to the program space of a CPU
  of the owner; \<open>m_maincpu\<close> points to that CPU. The pointers are references into the
  state (\<open>None\<close> is a pointer that points nowhere): \<open>a32_space\<close> is
  \<open>space(AS_PROGRAM)\<close> of the bus, and \<open>owner_subdevices\<close> holds the CPUs under
  \<open>owner()\<close> by tag.
\<close>

datatype space_ref = Own_space | Cpu_space string

record 'h cpu_device =
  program_space :: "'h address_space"
  program_config_width :: int

text \<open>
  Modelled from the spec: \<open>owner()->subdevice<cpu_device>(tag)\<close> (device.h is not under
  src/); "look up the named host CPU", a lookup that can fail to find it. The lookup is the
  map \<open>owner_subdevices\<close>; with no CPU under the tag its result is the null pointer.
\<close>

record 'h vme_device =
  m_allocspaces :: bool
  m_cputag :: string
  m_maincpu :: "string option"
  m_prgspace :: "space_ref option"
  m_prgwidth :: int
  a32_space :: "'h address_space"
  owner_subdevices :: "string \<rightharpoonup> 'h cpu_device"

text \<open>
  The constructor: \<open>m_allocspaces(true), m_cputag("maincpu")\<close>, and the bus's own
  configuration \<open>m_a32_config\<close> of data width 32. It leaves \<open>m_prgwidth\<close> and the
  pointers unset: \<open>w\<close> is whatever \<open>m_prgwidth\<close> holds then. \<open>subs\<close> are the CPUs
  under the owner.
\<close>

definition vme_device_init :: "int \<Rightarrow> (string \<rightharpoonup> 'h cpu_device) \<Rightarrow> 'h vme_device" where
  "vme_device_init w subs =
     \<lparr>m_allocspaces = True, m_cputag = ''maincpu'', m_maincpu = None, m_prgspace = None,
      m_prgwidth = w, a32_space = \<lparr>data_width = 32, installed = []\<rparr>,
      owner_subdevices = subs\<rparr>"

definition use_owner_spaces :: "'h vme_device \<Rightarrow> 'h vme_device" where
  "use_owner_spaces d = d\<lparr>m_allocspaces := False\<rparr>"


definition vme_device_start :: "'h vme_device \<Rightarrow> outcome \<times> 'h vme_device" where
  "vme_device_start d =
     (if m_allocspaces d
      then (Returned,
            d\<lparr>m_prgspace := Some Own_space, m_prgwidth := data_width (a32_space d)\<rparr>)
      else
        (case owner_subdevices d (m_cputag d) of
           None \<Rightarrow> (Null_dereference, d\<lparr>m_maincpu := None\<rparr>)
         | Some cpu \<Rightarrow>
             (Returned,
              d\<lparr>m_maincpu := Some (m_cputag d),
                m_prgspace := Some (Cpu_space (m_cputag d)),
                m_prgwidth := program_config_width cpu\<rparr>)))"

subsection \<open>install_device\<close>

fun amod_message :: "'h handler_pair \<Rightarrow> string" where
  "amod_message (D8 r w) = ''VME D8: Non supported Address modifier: AM%02x''"
| "amod_message (D8SM r w) = ''VME D8: Non supported Address modifier: AM%02x''"
| "amod_message (D8SMO r w) = ''VME D8: Non supported Address modifier: AM%02x''"
| "amod_message (D16 r w) = ''VME D16: Non supported Address modifier: %02x''"
| "amod_message (D32 r w) = ''VME D32: Non supported Address modifier: %02x''"

fun width_message :: "'h handler_pair \<Rightarrow> string" where
  "width_message (D8 r w) = ''VME D8: Bus width %d not supported''"
| "width_message (D8SM r w) = ''VME D8: Bus width %d not supported''"
| "width_message (D8SMO r w) = ''VME D8: Bus width %d not supported''"
| "width_message (D16 r w) = ''VME D16: Bus width %d not supported''"
| "width_message (D32 r w) = ''VME D32: Bus width %d not supported''"

text \<open>\<open>m_prgspace->install_readwrite_handler(...)\<close>: the call through the pointer.\<close>

definition prgspace_install ::
  "offs_t \<Rightarrow> offs_t \<Rightarrow> 'h handler_pair \<Rightarrow> u64 \<Rightarrow> 'h vme_device \<Rightarrow> outcome \<times> 'h vme_device" where
  "prgspace_install start aend hp um d =
     (case m_prgspace d of
        None \<Rightarrow> (Null_dereference, d)
      | Some Own_space \<Rightarrow>
          (Returned, d\<lparr>a32_space := install_readwrite_handler start aend hp um (a32_space d)\<rparr>)
      | Some (Cpu_space tag) \<Rightarrow>
          (case owner_subdevices d tag of
             None \<Rightarrow> (Null_dereference, d)
           | Some cpu \<Rightarrow>
               (Returned,
                d\<lparr>owner_subdevices := (owner_subdevices d)(tag \<mapsto>
                    cpu\<lparr>program_space :=
                      install_readwrite_handler start aend hp um (program_space cpu)\<rparr>)\<rparr>)))"

text \<open>
  The first switch, on \<open>amod\<close>: the fatal error of its default branch, if taken.
\<close>

fun amod_switch :: "'h handler_pair \<Rightarrow> vme_amod_t \<Rightarrow> emu_fatalerror option" where
  "amod_switch hp A16_SC = None"
| "amod_switch hp A24_SC = None"
| "amod_switch hp A32_SC = None"
| "amod_switch hp amod = Some (Fatalerror (amod_message hp) (Arg_amod amod))"

text \<open>
  One body for the five overloads (they differ in the messages only). The mask \<open>msk\<close> is a
  \<open>uint32_t\<close>; the width-16 branch casts \<open>msk & 0x0000ffff\<close> to \<open>uint16_t\<close>, the others
  pass a \<open>uint32_t\<close>.
\<close>

definition install_device ::
  "vme_amod_t \<Rightarrow> offs_t \<Rightarrow> offs_t \<Rightarrow> 'h handler_pair \<Rightarrow> u32 \<Rightarrow> 'h vme_device
     \<Rightarrow> outcome \<times> 'h vme_device" where
  "install_device amod start aend hp msk d =
     (case amod_switch hp amod of
        Some e \<Rightarrow> (Fatal e, d)
      | None \<Rightarrow>
          (if m_prgwidth d = 16 then
             prgspace_install start aend hp (ucast (ucast (msk AND 0x0000ffff) :: u16)) d
           else if m_prgwidth d = 24 then
             prgspace_install start aend hp (ucast (msk AND 0x00ffffff)) d
           else if m_prgwidth d = 32 then
             prgspace_install start aend hp (ucast msk) d
           else (Fatal (Fatalerror (width_message hp) (Arg_int (m_prgwidth d))), d)))"

section \<open>Concrete inputs\<close>

text \<open>Inputs at which the theorems below are instantiated.\<close>

definition file_image :: "u8 list \<Rightarrow> image" where
  "file_image bs =
     \<lparr>loaded_through_softlist = False, file_bytes = bs,
      software_regions = Map.empty, features = Map.empty\<rparr>"

definition softlist_image :: "u8 list \<Rightarrow> string \<Rightarrow> image" where
  "softlist_image rom name =
     \<lparr>loaded_through_softlist = True, file_bytes = [],
      software_regions = [''rom'' \<mapsto> rom], features = [''slot'' \<mapsto> name]\<rparr>"

text \<open>A raw image file of \<open>2^32 + 0x1800\<close> bytes.\<close>

definition wrapped_image :: image where
  "wrapped_image = file_image (replicate 0x100001800 0)"

definition slot_with_new_cart :: apf_cart_slot_device where
  "slot_with_new_cart = apf_device_start (Some cart_interface_init) apf_cart_slot_init"

definition loaded_cart :: device_apf_cart_interface where
  "loaded_cart = \<lparr>m_rom = Some [1, 2, 3], m_rom_size = 3, m_ram = []\<rparr>"

definition empty_vme_slot :: vme_slot_device where
  "empty_vme_slot = \<lparr>m_slot_nbr = 1, card_device = None\<rparr>"

definition cpu16 :: "nat cpu_device" where
  "cpu16 = \<lparr>program_space = \<lparr>data_width = 16, installed = []\<rparr>, program_config_width = 16\<rparr>"

definition bus16 :: "nat vme_device" where
  "bus16 =
     snd (vme_device_start (use_owner_spaces (vme_device_init 0 [''maincpu'' \<mapsto> cpu16])))"

definition bus_without_cpu :: "nat vme_device" where
  "bus_without_cpu = use_owner_spaces (vme_device_init 0 Map.empty)"

section \<open>Auxiliary facts\<close>

subsection \<open>Sizes\<close>






subsection \<open>The copy into a fresh ROM region\<close>

lemma write_fresh_rom:
  assumes "m_rom c = None" and "length bs = unat sz"
  shows "write_rom_base bs (rom_alloc sz c) = Some (c\<lparr>m_rom := Some bs, m_rom_size := sz\<rparr>)"
  using assms by (simp add: write_rom_base_def rom_alloc_def get_rom_base_def region_alloc_def)


lemma length_region_bytes:
  "length (region_bytes img tag (get_software_region_length img tag)) =
     unat (get_software_region_length img tag)"
  by (auto simp: region_bytes_def get_software_region_length_def unat_of_nat
      split: option.splits)

subsection \<open>The PCB table\<close>

lemma get_pcb_id_unknown: "name \<notin> snd ` set slot_list \<Longrightarrow> apf_get_pcb_id name = 0"
  by (auto simp: apf_get_pcb_id_def slot_list_def)

subsection \<open>The bus\<close>





lemma amod_switch_unsupported:
  "amod \<notin> {A16_SC, A24_SC, A32_SC} \<Longrightarrow>
     amod_switch hp amod = Some (Fatalerror (amod_message hp) (Arg_amod amod))"
  by (cases amod) auto

lemma slot_with_new_cart_simps:
  "m_cart slot_with_new_cart = Some cart_interface_init"
  "m_rom cart_interface_init = None"
  "m_ram cart_interface_init = []"
  by (simp_all add: slot_with_new_cart_def apf_device_start_def cart_interface_init_def)

section \<open>The VME bus controller\<close>



text \<open>
  Claim C3. For an address modifier other than A16_SC, A24_SC and A32_SC, every overload of
  \<open>install_device\<close> stops with the fatal error of its "Non supported Address modifier"
  message, and the state at that point is the state before the call: nothing has been
  installed in any address space.
\<close>

theorem install_device_unsupported_amod:
  assumes "amod \<notin> {A16_SC, A24_SC, A32_SC}"
  shows "install_device amod start aend hp msk d =
           (Fatal (Fatalerror (amod_message hp) (Arg_amod amod)), d)"
  using amod_switch_unsupported [OF assms, where hp = hp] by (simp add: install_device_def)

theorem install_device_unsupported_amod_witness:
  "AMOD_other 0 \<notin> {A16_SC, A24_SC, A32_SC} \<and>
   install_device (AMOD_other 0) 0 0xff (D16 1 2) 0xffff bus16 =
     (Fatal (Fatalerror ''VME D16: Non supported Address modifier: %02x''
        (Arg_amod (AMOD_other 0))), bus16)"
  using install_device_unsupported_amod [where amod = "AMOD_other 0" and hp = "D16 1 2"
      and start = 0 and aend = "0xff" and msk = "0xffff" and d = bus16]
  by simp

text \<open>
  Claim C6. With the bus switched to the owner's spaces and no CPU under the owner for the
  tag in \<open>m_cputag\<close>, \<open>device_start\<close> makes no check of the pointer it gets from the
  lookup: at this input it goes through the null pointer, and no fatal error with a message
  is raised.
\<close>

theorem device_start_missing_cpu:
  "\<not> m_allocspaces bus_without_cpu \<and>
   owner_subdevices bus_without_cpu (m_cputag bus_without_cpu) = None \<and>
   fst (vme_device_start bus_without_cpu) = Null_dereference"
  by (simp add: bus_without_cpu_def vme_device_start_def use_owner_spaces_def
      vme_device_init_def)

section \<open>Slots without a card\<close>

text \<open>
  Claim C2, as stated, at the VME slot: a read through a VME slot without a card is not the
  open-bus value 0xFF.
\<close>

theorem vme_slot_read8_not_open_bus:
  "card_device empty_vme_slot = None \<and> vme_slot_read8 0 empty_vme_slot \<noteq> 0xff"
  by (simp add: empty_vme_slot_def vme_slot_read8_def)

text \<open>
  Claim C2, amended. For every offset, \<open>read_rom\<close>, \<open>extra_rom\<close> and \<open>read_ram\<close>
  through an APF slot without a card return 0xFF, and \<open>write_ram\<close> through it leaves the
  slot as it was. The VME slot's \<open>read8\<close> returns 0x00 at every offset, and its \<open>write8\<close>
  leaves the slot as it was.
\<close>

theorem empty_slot_access:
  "(m_cart s = None \<longrightarrow>
      read_rom offset s = 0xff \<and> extra_rom offset s = 0xff \<and> read_ram offset s = 0xff \<and>
      write_ram offset data s = s) \<and>
   vme_slot_read8 offset v = 0x00 \<and> vme_slot_write8 offset data v = v"
  by (simp add: read_rom_def extra_rom_def read_ram_def write_ram_def
      vme_slot_read8_def vme_slot_write8_def)

theorem empty_slot_access_witness:
  "m_cart apf_cart_slot_init = None \<and>
   read_rom 0x10 apf_cart_slot_init = 0xff \<and> extra_rom 0x10 apf_cart_slot_init = 0xff \<and>
   read_ram 0x10 apf_cart_slot_init = 0xff \<and>
   write_ram 0x10 0x5a apf_cart_slot_init = apf_cart_slot_init \<and>
   vme_slot_read8 0x10 empty_vme_slot = 0x00 \<and>
   vme_slot_write8 0x10 0x5a empty_vme_slot = empty_vme_slot"
proof -
  have h: "m_cart apf_cart_slot_init = None"
    by (simp add: apf_cart_slot_init_def)
  show ?thesis
    using h empty_slot_access [where s = apf_cart_slot_init and offset = "0x10"
        and data = "0x5a" and v = empty_vme_slot]
    by simp
qed

section \<open>Allocation on the card\<close>

text \<open>
  Claim C7. \<open>rom_alloc\<close> on a card whose ROM is already allocated changes nothing, whatever
  the size asked for: the ROM pointer and its bytes, the recorded size and the rest of the
  card are as before.
\<close>

theorem rom_alloc_idempotent:
  assumes "m_rom c \<noteq> None"
  shows "rom_alloc sz c = c \<and> m_rom (rom_alloc sz c) = m_rom c \<and>
         m_rom_size (rom_alloc sz c) = m_rom_size c"
  using assms by (auto simp: rom_alloc_def)

theorem rom_alloc_idempotent_witness:
  "m_rom loaded_cart \<noteq> None \<and> rom_alloc 5 loaded_cart = loaded_cart \<and>
   m_rom (rom_alloc 5 loaded_cart) = Some [1, 2, 3] \<and>
   m_rom_size (rom_alloc 5 loaded_cart) = 3"
proof -
  have h: "m_rom loaded_cart \<noteq> None"
    by (simp add: loaded_cart_def)
  show ?thesis
    using h rom_alloc_idempotent [OF h, where sz = 5] by (simp add: loaded_cart_def)
qed

text \<open>
  Claim C10. \<open>ram_alloc\<close> has no guard: each call resizes the RAM to the size asked for, so
  after \<open>ram_alloc s1\<close> the RAM has \<open>s1\<close> bytes and after a following \<open>ram_alloc s2\<close> it
  has \<open>s2\<close> bytes.
\<close>

theorem ram_alloc_resizes_every_call:
  "length (m_ram (ram_alloc s1 c)) = unat s1 \<and>
   length (m_ram (ram_alloc s2 (ram_alloc s1 c))) = unat s2"
  by (auto simp: ram_alloc_def resize_def min_def)

section \<open>Loading a cartridge image\<close>

text \<open>
  Claim C9. With no card attached to the slot (\<open>m_cart\<close> null), \<open>call_load\<close> returns the
  empty error condition and the slot is as before: no size check, no allocation, no copy,
  and \<open>m_type\<close> unchanged.
\<close>

theorem call_load_no_card:
  assumes "m_cart s = None"
  shows "call_load img s = Some (None, s)"
  using assms by (simp add: call_load_def)

theorem call_load_no_card_witness:
  "m_cart apf_cart_slot_init = None \<and>
   call_load (file_image (replicate 0x3801 0)) apf_cart_slot_init
     = Some (None, apf_cart_slot_init)"
proof -
  have h: "m_cart apf_cart_slot_init = None"
    by (simp add: apf_cart_slot_init_def)
  show ?thesis
    using h call_load_no_card [OF h] by simp
qed

text \<open>
  The size check of \<open>call_load\<close> is on the local \<open>uint32_t size\<close>: when that value is
  above 0x3800 and a card is present, the length error is returned and the slot is as
  before.
\<close>

lemma call_load_size_above_max:
  assumes "m_cart s = Some c" and "0x3800 < load_size img"
  shows "call_load img s = Some (Some INVALIDLENGTH, s)"
  using assms by (simp add: call_load_def)

lemma load_size_wrapped_image: "load_size wrapped_image = 0x1800"
  by (simp add: wrapped_image_def file_image_def load_size_def image_length_def)

text \<open>
  Claim C4. An image of more than 0x3800 bytes is to be refused with the length error, with
  nothing allocated. \<open>call_load\<close> keeps the 64-bit file length in a \<open>uint32_t\<close>: for a
  raw file of \<open>2^32 + 0x1800\<close> bytes the size it compares is 0x1800, and the load
  returns without error, with a ROM of 0x1800 bytes and 0x400 bytes of RAM allocated on the
  card and the variant APF_SPACEDST selected. \<open>get_default_card_software\<close>, which keeps
  the length in a \<open>uint64_t\<close>, names "basic" for the same file.
\<close>

theorem call_load_accepts_wrapped_length:
  "0x3800 < length (file_bytes wrapped_image) \<and>
   \<not> loaded_through_softlist wrapped_image \<and>
   m_cart slot_with_new_cart = Some cart_interface_init \<and>
   load_size wrapped_image = 0x1800 \<and>
   call_load wrapped_image slot_with_new_cart =
     Some (None,
       \<lparr>m_type = APF_SPACEDST,
        m_cart = Some \<lparr>m_rom = Some (replicate 0x1800 0), m_rom_size = 0x1800,
                        m_ram = replicate 0x400 0\<rparr>\<rparr>) \<and>
   get_default_card_software (\<lambda>d. d) \<lparr>image_file = Some (file_bytes wrapped_image)\<rparr>
     = ''basic''"
proof -
  have big: "0x3800 < length (file_bytes wrapped_image)"
    by (simp add: wrapped_image_def file_image_def)
  have nosl: "\<not> loaded_through_softlist wrapped_image"
    by (simp add: wrapped_image_def file_image_def)
  have bytes: "fread wrapped_image 0x1800 = replicate 0x1800 0"
    by (simp add: fread_def wrapped_image_def file_image_def)
  have wr: "write_rom_base (replicate 0x1800 0) (rom_alloc 0x1800 cart_interface_init)
              = Some (cart_interface_init\<lparr>m_rom := Some (replicate 0x1800 0), m_rom_size := 0x1800\<rparr>)"
    by (rule write_fresh_rom) (simp_all add: cart_interface_init_def)
  have step: "call_load wrapped_image slot_with_new_cart =
     Some (None,
       slot_with_new_cart
         \<lparr>m_type := APF_SPACEDST,
          m_cart := Some (ram_alloc 0x400
            (cart_interface_init\<lparr>m_rom := Some (replicate 0x1800 0), m_rom_size := 0x1800\<rparr>))\<rparr>)"
    using nosl
    by (simp add: call_load_def Let_def slot_with_new_cart_simps(1) load_size_wrapped_image
        bytes wr)
  have load: "call_load wrapped_image slot_with_new_cart =
     Some (None,
       \<lparr>m_type = APF_SPACEDST,
        m_cart = Some \<lparr>m_rom = Some (replicate 0x1800 0), m_rom_size = 0x1800,
                        m_ram = replicate 0x400 0\<rparr>\<rparr>)"
    unfolding step
    by (simp add: ram_alloc_def resize_def cart_interface_init_def slot_with_new_cart_def
        apf_device_start_def apf_cart_slot_init_def)
  have query: "get_default_card_software (\<lambda>d. d)
                 \<lparr>image_file = Some (file_bytes wrapped_image)\<rparr> = ''basic''"
    by (simp add: get_default_card_software_def wrapped_image_def file_image_def
        apf_get_slot_def slot_list_def APF_STD_def APF_BASIC_def APF_SPACEDST_def)
  show ?thesis
    using big nosl load query slot_with_new_cart_simps(1) load_size_wrapped_image by simp
qed



text \<open>
  Claim C8. For a slot name that is not in \<open>slot_list\<close>, \<open>apf_get_pcb_id\<close> returns 0, the id
  of the default variant APF_STD; and a software-list image that carries such a name as its
  "slot" feature, of an accepted size, loaded into a slot with a new card, is loaded without
  error: the card's ROM holds the bytes of the region "rom", its RAM is resized to the
  region "ram" if there is one, and \<open>m_type\<close> is APF_STD.
\<close>

theorem unknown_slot_name_defaults:
  assumes unknown: "name \<notin> snd ` set slot_list"
  shows "apf_get_pcb_id name = 0 \<and> apf_get_pcb_id name = APF_STD \<and>
         (loaded_through_softlist img \<and> get_feature img ''slot'' = Some name \<and>
          m_cart s = Some c \<and> m_rom c = None \<and> \<not> 0x3800 < load_size img \<longrightarrow>
            call_load img s =
              Some (None,
                s\<lparr>m_type := APF_STD,
                  m_cart := Some
                    (let c2 = c\<lparr>m_rom := Some (region_bytes img ''rom'' (load_size img)),
                                m_rom_size := load_size img\<rparr>
                     in case get_software_region img ''ram'' of
                          Some r \<Rightarrow> ram_alloc (get_software_region_length img ''ram'') c2
                        | None \<Rightarrow> c2)\<rparr>))"
proof -
  have id: "apf_get_pcb_id name = 0"
    using unknown by (rule get_pcb_id_unknown)
  have "call_load img s =
              Some (None,
                s\<lparr>m_type := APF_STD,
                  m_cart := Some
                    (let c2 = c\<lparr>m_rom := Some (region_bytes img ''rom'' (load_size img)),
                                m_rom_size := load_size img\<rparr>
                     in case get_software_region img ''ram'' of
                          Some r \<Rightarrow> ram_alloc (get_software_region_length img ''ram'') c2
                        | None \<Rightarrow> c2)\<rparr>)"
    if sl: "loaded_through_softlist img" and ft: "get_feature img ''slot'' = Some name"
      and cart: "m_cart s = Some c" and fresh: "m_rom c = None"
      and ok: "\<not> 0x3800 < load_size img"
  proof -
    let ?sz = "load_size img"
    have sz: "?sz = get_software_region_length img ''rom''"
      using sl by (simp add: load_size_def)
    have lr: "length (region_bytes img ''rom'' ?sz) = unat ?sz"
      unfolding sz by (rule length_region_bytes)
    have wr: "write_rom_base (region_bytes img ''rom'' ?sz) (rom_alloc ?sz c)
                = Some (c\<lparr>m_rom := Some (region_bytes img ''rom'' ?sz), m_rom_size := ?sz\<rparr>)"
      using fresh lr by (rule write_fresh_rom)
    show ?thesis
      using sl ft cart ok by (simp add: call_load_def Let_def wr id APF_STD_def)
  qed
  then show ?thesis
    using id by (simp add: APF_STD_def)
qed

theorem unknown_slot_name_defaults_witness:
  "''turbo'' \<notin> snd ` set slot_list \<and>
   apf_get_pcb_id ''turbo'' = 0 \<and> apf_get_pcb_id ''turbo'' = APF_STD \<and>
   loaded_through_softlist (softlist_image (replicate 0x2000 0x42) ''turbo'') \<and>
   get_feature (softlist_image (replicate 0x2000 0x42) ''turbo'') ''slot'' = Some ''turbo'' \<and>
   m_cart (slot_with_new_cart\<lparr>m_type := APF_BASIC\<rparr>) = Some cart_interface_init \<and>
   m_rom cart_interface_init = None \<and>
   \<not> 0x3800 < load_size (softlist_image (replicate 0x2000 0x42) ''turbo'') \<and>
   call_load (softlist_image (replicate 0x2000 0x42) ''turbo'')
       (slot_with_new_cart\<lparr>m_type := APF_BASIC\<rparr>) =
     Some (None,
       \<lparr>m_type = APF_STD,
        m_cart = Some \<lparr>m_rom = Some (replicate 0x2000 0x42), m_rom_size = 0x2000,
                        m_ram = []\<rparr>\<rparr>)"
proof -
  let ?img = "softlist_image (replicate 0x2000 0x42) ''turbo''"
  let ?s = "slot_with_new_cart\<lparr>m_type := APF_BASIC\<rparr>"
  have u: "''turbo'' \<notin> snd ` set slot_list"
    by (simp add: slot_list_def)
  have h1: "loaded_through_softlist ?img"
    by (simp add: softlist_image_def)
  have h2: "get_feature ?img ''slot'' = Some ''turbo''"
    by (simp add: softlist_image_def get_feature_def)
  have h3: "m_cart ?s = Some cart_interface_init"
    by (simp add: slot_with_new_cart_simps)
  have h4: "m_rom cart_interface_init = None"
    by (rule slot_with_new_cart_simps)
  have sz: "load_size ?img = 0x2000"
    by (simp add: load_size_def softlist_image_def get_software_region_length_def)
  have h5: "\<not> 0x3800 < load_size ?img"
    by (simp add: sz)
  have rb: "region_bytes ?img ''rom'' 0x2000 = replicate 0x2000 0x42"
    by (simp add: region_bytes_def softlist_image_def)
  have noram: "get_software_region ?img ''ram'' = None"
    by (simp add: get_software_region_def softlist_image_def)
  have post: "slot_with_new_cart\<lparr>m_type := APF_STD,
                  m_cart := Some (cart_interface_init\<lparr>m_rom := Some (replicate 0x2000 0x42),
                                    m_rom_size := 0x2000\<rparr>)\<rparr>
              = \<lparr>m_type = APF_STD,
                 m_cart = Some \<lparr>m_rom = Some (replicate 0x2000 0x42), m_rom_size = 0x2000,
                                 m_ram = []\<rparr>\<rparr>"
    by (simp add: slot_with_new_cart_def apf_device_start_def apf_cart_slot_init_def
        cart_interface_init_def)
  from unknown_slot_name_defaults [OF u, where img = ?img and s = ?s
        and c = cart_interface_init] h1 h2 h3 h4 h5
  have "call_load ?img ?s =
     Some (None,
       \<lparr>m_type = APF_STD,
        m_cart = Some \<lparr>m_rom = Some (replicate 0x2000 0x42), m_rom_size = 0x2000,
                        m_ram = []\<rparr>\<rparr>)"
    by (simp add: sz rb noram post)
  with unknown_slot_name_defaults [OF u, where img = ?img and s = ?s
        and c = cart_interface_init] u h1 h2 h3 h4 h5
  show ?thesis by blast
qed

end
